theory Spec2Isabelle
  imports Main "HOL-Library.Multiset" "HOL-Library.Sublist"
begin

section \<open>The ESLint rule required-modules\<close>

text \<open>
  A shallow embedding of \<^verbatim>\<open>tools/eslint-rules/required-modules.js\<close>.
  The rule is a function of the \<^verbatim>\<open>context\<close> that returns an object of listeners;
  the closure variable \<^verbatim>\<open>foundModules\<close> and the calls of \<^verbatim>\<open>context.report\<close>
  are the state that the listeners pass on.

  A JavaScript string is a sequence of UTF-16 code units. The model uses \<^typ>\<open>string\<close>
  and reads each \<^typ>\<open>char\<close> as the code unit of the same number, so it covers the
  strings whose code units are below 256.
\<close>

subsection \<open>Library functions of the language\<close>

text \<open>
  \<^verbatim>\<open>Array.prototype.indexOf\<close>: the index of the first element strictly equal to
  the argument, and \<open>-1\<close> when there is none.
\<close>

fun indexOf :: "'a list \<Rightarrow> 'a \<Rightarrow> int" where
  "indexOf [] x = - 1"
| "indexOf (y # ys) x =
     (if y = x then 0
      else (let i = indexOf ys x in if i = - 1 then - 1 else i + 1))"

text \<open>
  \<^verbatim>\<open>String.prototype.trim\<close> removes white space and line terminators from both
  ends. Among the code units below 256 these are TAB, LF, VT, FF, CR, SP and NBSP.
\<close>

definition isWhiteSpace :: "char \<Rightarrow> bool" where
  "isWhiteSpace c \<longleftrightarrow>
     c \<in> set [CHR 0x09, CHR 0x0A, CHR 0x0B, CHR 0x0C, CHR 0x0D, CHR 0x20, CHR 0xA0]"

definition trim :: "string \<Rightarrow> string" where
  "trim s = rev (dropWhile isWhiteSpace (rev (dropWhile isWhiteSpace s)))"

text \<open>
  Modelled from the spec: \<^verbatim>\<open>path.basename\<close> of the \<^verbatim>\<open>path\<close> module, which the rule
  loads with \<^verbatim>\<open>require('path')\<close> and whose source is not part of the rule's file.
  The spec: it "takes the final path-segment (basename) of the trimmed value, stripping
  any directory prefix". As the POSIX variant of the module does, separators at the
  end of the path are not part of the segment, and a path without a segment has the
  basename \<open>''''\<close>. The rule passes no suffix, so an extension stays. No path that
  the properties below evaluate ends in a separator.
\<close>

definition basename :: "string \<Rightarrow> string" where
  "basename p =
     rev (takeWhile (\<lambda>c. c \<noteq> CHR ''/'') (dropWhile (\<lambda>c. c = CHR ''/'') (rev p)))"

subsection \<open>The syntax tree, the context and the reports\<close>

text \<open>The \<^verbatim>\<open>value\<close> of a \<^verbatim>\<open>Literal\<close> node, by its \<^verbatim>\<open>typeof\<close>.\<close>

datatype literal_value =
    StringValue string
  | NumberValue int
  | BooleanValue bool
  | NullValue
  | RegExpValue string

text \<open>
  Expressions, as far as the rule looks at them: it reads the \<^verbatim>\<open>type\<close> of a callee
  and of a first argument, the \<^verbatim>\<open>name\<close> of an \<^verbatim>\<open>Identifier\<close> and the \<^verbatim>\<open>value\<close>
  of a \<^verbatim>\<open>Literal\<close>.
\<close>

datatype expr =
    Literal literal_value
  | Identifier string
  | MemberExpression expr expr bool
  | TemplateLiteral string
  | Call expr "expr list"

text \<open>
  A node that the traversal visits: \<^verbatim>\<open>CallExpression\<close> with its \<^verbatim>\<open>callee\<close> and
  \<^verbatim>\<open>arguments\<close>, \<^verbatim>\<open>ImportDeclaration\<close> with its \<^verbatim>\<open>source.value\<close> (the source of
  an import declaration is a string literal), the root \<^verbatim>\<open>Program\<close>, or a node of
  any other type.
\<close>

datatype node =
    Program
  | CallExpression expr "expr list"
  | ImportDeclaration string
  | OtherNode

text \<open>
  \<^verbatim>\<open>context.options\<close> and \<^verbatim>\<open>context.parserOptions.sourceType\<close> (\<open>None\<close> when the
  parser options do not set it).
\<close>

record "context" =
  options :: "string list"
  sourceType :: "string option"

text \<open>One call of \<^verbatim>\<open>context.report(node, message, data)\<close>.\<close>

record report =
  node :: node
  message :: string
  moduleName :: string

text \<open>The closure variable \<^verbatim>\<open>foundModules\<close> and the reports made so far.\<close>

record state =
  foundModules :: "string list"
  reports :: "report list"

definition initial :: state where
  "initial = \<lparr>foundModules = [], reports = []\<rparr>"

subsection \<open>The functions of the rule\<close>

definition isString :: "expr \<Rightarrow> bool" where
  "isString n = (case n of Literal (StringValue v) \<Rightarrow> True | _ \<Rightarrow> False)"

definition isRequireCall :: "expr \<Rightarrow> bool" where
  "isRequireCall callee = (case callee of Identifier name \<Rightarrow> name = ''require'' | _ \<Rightarrow> False)"

definition getRequiredModuleName :: "string list \<Rightarrow> string \<Rightarrow> string option" where
  "getRequiredModuleName requiredModules str =
     (if str = ''../common/index.mjs'' then Some ''common''
      else (let v = basename str
            in if indexOf requiredModules v \<noteq> - 1 then Some v else None))"

text \<open>
  \<^verbatim>\<open>node.arguments[0].value\<close>, read only after \<^verbatim>\<open>isString\<close> has said that
  the argument is a literal with a string value.
\<close>

fun stringOf :: "expr \<Rightarrow> string" where
  "stringOf (Literal (StringValue v)) = v"
| "stringOf n = []"

definition getRequiredModuleNameFromCall :: "string list \<Rightarrow> expr list \<Rightarrow> string option" where
  "getRequiredModuleNameFromCall requiredModules arguments =
     (if length arguments \<noteq> 0 \<and> isString (hd arguments)
      then getRequiredModuleName requiredModules (trim (stringOf (hd arguments)))
      else None)"

text \<open>
  \<^verbatim>\<open>if (requiredModuleName) foundModules.push(requiredModuleName)\<close>: the test is for a
  truthy value, so neither \<^verbatim>\<open>undefined\<close> nor the empty string is pushed.
\<close>

definition pushFound :: "string option \<Rightarrow> state \<Rightarrow> state" where
  "pushFound requiredModuleName st =
     (case requiredModuleName of
        None \<Rightarrow> st
      | Some name \<Rightarrow>
          if name \<noteq> [] then st\<lparr>foundModules := foundModules st @ [name]\<rparr> else st)"

definition template :: string where
  \<open>template = ''Mandatory module "{{moduleName}}" must be loaded.''\<close>

definition programExit :: "string list \<Rightarrow> node \<Rightarrow> state \<Rightarrow> state" where
  "programExit requiredModules n st =
     (if length (foundModules st) < length requiredModules then
        (let missingModules =
               filter (\<lambda>module. indexOf (foundModules st) module = - 1) requiredModules
         in st\<lparr>reports := reports st @
                  map (\<lambda>name. \<lparr>node = n, message = template, moduleName = name\<rparr>)
                    missingModules\<rparr>)
      else st)"

definition importDeclaration :: "string list \<Rightarrow> string \<Rightarrow> state \<Rightarrow> state" where
  "importDeclaration requiredModules source_value st =
     pushFound (getRequiredModuleName requiredModules source_value) st"

definition callExpression :: "string list \<Rightarrow> expr \<Rightarrow> expr list \<Rightarrow> state \<Rightarrow> state" where
  "callExpression requiredModules callee arguments st =
     (if isRequireCall callee
      then pushFound (getRequiredModuleNameFromCall requiredModules arguments) st
      else st)"

text \<open>
  The object that the rule returns: a listener or none under each of the keys
  \<^verbatim>\<open>'Program:exit'\<close>, \<^verbatim>\<open>ImportDeclaration\<close> and \<^verbatim>\<open>CallExpression\<close>.
\<close>

record listeners =
  onProgramExit :: "(node \<Rightarrow> state \<Rightarrow> state) option"
  onImportDeclaration :: "(string \<Rightarrow> state \<Rightarrow> state) option"
  onCallExpression :: "(expr \<Rightarrow> expr list \<Rightarrow> state \<Rightarrow> state) option"

definition noListeners :: listeners where
  "noListeners =
     \<lparr>onProgramExit = None, onImportDeclaration = None, onCallExpression = None\<rparr>"

definition isESM :: "context \<Rightarrow> bool" where
  "isESM ctx \<longleftrightarrow> sourceType ctx = Some ''module''"

definition create :: "context \<Rightarrow> listeners" where
  "create ctx =
     (let requiredModules = options ctx in
      if length requiredModules = 0 then noListeners
      else if isESM ctx then
        \<lparr>onProgramExit = Some (programExit requiredModules),
         onImportDeclaration = Some (importDeclaration requiredModules),
         onCallExpression = None\<rparr>
      else
        \<lparr>onProgramExit = Some (programExit requiredModules),
         onImportDeclaration = None,
         onCallExpression = Some (callExpression requiredModules)\<rparr>)"

subsection \<open>The traversal\<close>

text \<open>
  The linter visits the nodes of the file one after the other and calls the listener
  registered for the type of each; after the last node it calls \<^verbatim>\<open>'Program:exit'\<close>
  once, with the root. A file is given by the nodes below the root in the order of the
  visit.
\<close>

fun visit :: "listeners \<Rightarrow> node \<Rightarrow> state \<Rightarrow> state" where
  "visit ls (CallExpression callee arguments) st =
     (case onCallExpression ls of None \<Rightarrow> st | Some h \<Rightarrow> h callee arguments st)"
| "visit ls (ImportDeclaration source_value) st =
     (case onImportDeclaration ls of None \<Rightarrow> st | Some h \<Rightarrow> h source_value st)"
| "visit ls n st = st"

definition traverse :: "listeners \<Rightarrow> node list \<Rightarrow> state \<Rightarrow> state" where
  "traverse ls ns st = fold (visit ls) ns st"

definition finish :: "listeners \<Rightarrow> state \<Rightarrow> state" where
  "finish ls st = (case onProgramExit ls of None \<Rightarrow> st | Some h \<Rightarrow> h Program st)"

definition lint :: "context \<Rightarrow> node list \<Rightarrow> report list" where
  "lint ctx ns = reports (finish (create ctx) (traverse (create ctx) ns initial))"

text \<open>The names found after the visit of the nodes \<open>ns\<close>.\<close>

definition found :: "context \<Rightarrow> node list \<Rightarrow> string list" where
  "found ctx ns = foundModules (traverse (create ctx) ns initial)"

text \<open>A call \<^verbatim>\<open>f("s")\<close> and the report of a missing module.\<close>

definition callOf :: "string \<Rightarrow> string \<Rightarrow> node" where
  "callOf f s = CallExpression (Identifier f) [Literal (StringValue s)]"

definition missing :: "string \<Rightarrow> report" where
  "missing name = \<lparr>node = Program, message = template, moduleName = name\<rparr>"

definition callMode :: "string list \<Rightarrow> context" where
  "callMode requiredModules = \<lparr>options = requiredModules, sourceType = Some ''script''\<rparr>"

definition importMode :: "string list \<Rightarrow> context" where
  "importMode requiredModules = \<lparr>options = requiredModules, sourceType = Some ''module''\<rparr>"

subsection \<open>What one visit adds\<close>

text \<open>
  The name that the visit of the node \<open>n\<close> resolves under the listeners of
  \<open>create ctx\<close>, and the names that the visit appends to \<^verbatim>\<open>foundModules\<close>. Both are
  shown below to agree with \<open>visit (create ctx)\<close>.
\<close>

definition resolved :: "context \<Rightarrow> node \<Rightarrow> string option" where
  "resolved ctx n =
     (if options ctx = [] then None
      else case n of
        ImportDeclaration s \<Rightarrow>
          if isESM ctx then getRequiredModuleName (options ctx) s else None
      | CallExpression callee arguments \<Rightarrow>
          if \<not> isESM ctx \<and> isRequireCall callee
          then getRequiredModuleNameFromCall (options ctx) arguments else None
      | _ \<Rightarrow> None)"

definition added :: "context \<Rightarrow> node \<Rightarrow> string list" where
  "added ctx n = (case resolved ctx n of None \<Rightarrow> [] | Some name \<Rightarrow> if name \<noteq> [] then [name] else [])"

text \<open>The sources of the import declarations of a file, in the order of the visit.\<close>

fun importSources :: "node list \<Rightarrow> string list" where
  "importSources [] = []"
| "importSources (ImportDeclaration s # ns) = s # importSources ns"
| "importSources (n # ns) = importSources ns"

section \<open>Properties\<close>

subsection \<open>Auxiliary facts\<close>

lemma indexOf_bounds: "- 1 \<le> indexOf xs x"
  by (induction xs) (auto simp: Let_def)

lemma indexOf_absent: "indexOf xs x = - 1 \<longleftrightarrow> x \<notin> set xs"
proof (induction xs)
  case Nil
  show ?case by simp
next
  case (Cons y ys)
  have "- 1 \<le> indexOf ys x" by (rule indexOf_bounds)
  with Cons show ?case by (auto simp: Let_def)
qed

lemma create_empty: "options ctx = [] \<Longrightarrow> create ctx = noListeners"
  by (simp add: create_def)

lemma create_import:
  "options ctx \<noteq> [] \<Longrightarrow> isESM ctx \<Longrightarrow>
   create ctx = \<lparr>onProgramExit = Some (programExit (options ctx)),
                 onImportDeclaration = Some (importDeclaration (options ctx)),
                 onCallExpression = None\<rparr>"
  by (simp add: create_def Let_def)

lemma create_call:
  "options ctx \<noteq> [] \<Longrightarrow> \<not> isESM ctx \<Longrightarrow>
   create ctx = \<lparr>onProgramExit = Some (programExit (options ctx)),
                 onImportDeclaration = None,
                 onCallExpression = Some (callExpression (options ctx))\<rparr>"
  by (simp add: create_def Let_def)

lemma pushFound_reports: "reports (pushFound r st) = reports st"
  by (simp add: pushFound_def split: option.splits)

lemma pushFound_found:
  "foundModules (pushFound r st) =
     foundModules st @ (case r of None \<Rightarrow> [] | Some name \<Rightarrow> if name \<noteq> [] then [name] else [])"
  by (simp add: pushFound_def split: option.splits)

lemma visit_create: "visit (create ctx) n st = pushFound (resolved ctx n) st"
proof (cases "options ctx = []")
  case True
  then show ?thesis
    by (cases n) (simp_all add: create_empty noListeners_def resolved_def pushFound_def)
next
  case False
  show ?thesis
  proof (cases "isESM ctx")
    case True
    with False show ?thesis
      by (cases n)
         (simp_all add: create_import resolved_def pushFound_def importDeclaration_def)
  next
    case esm: False
    with False show ?thesis
      by (cases n)
         (simp_all add: create_call resolved_def pushFound_def callExpression_def)
  qed
qed

lemma traverse_found:
  "foundModules (traverse (create ctx) ns st) = foundModules st @ concat (map (added ctx) ns)"
  unfolding traverse_def
  by (induction ns arbitrary: st) (simp_all add: visit_create pushFound_found added_def)

lemma traverse_reports: "reports (traverse (create ctx) ns st) = reports st"
  unfolding traverse_def
  by (induction ns arbitrary: st) (simp_all add: visit_create pushFound_reports)

lemma found_concat: "found ctx ns = concat (map (added ctx) ns)"
  by (simp add: found_def traverse_found initial_def)

lemma found_append: "found ctx (ns @ ms) = found ctx ns @ found ctx ms"
  by (simp add: found_concat)

lemma lint_eq:
  "lint ctx ns =
     (if length (found ctx ns) < length (options ctx)
      then map missing (filter (\<lambda>m. m \<notin> set (found ctx ns)) (options ctx))
      else [])"
proof (cases "options ctx = []")
  case True
  have "reports (traverse (create ctx) ns initial) = []"
    by (simp add: traverse_reports initial_def)
  with True show ?thesis
    by (simp add: lint_def create_empty noListeners_def finish_def)
next
  case False
  then have "onProgramExit (create ctx) = Some (programExit (options ctx))"
    by (cases "isESM ctx") (simp_all add: create_import create_call)
  then show ?thesis
    by (simp add: lint_def finish_def programExit_def Let_def traverse_reports initial_def
        found_def indexOf_absent missing_def)
qed

lemma callExpression_other_shape:
  "\<not> (callee = Identifier ''require'' \<and> (\<exists>v rest. arguments = Literal (StringValue v) # rest))
   \<Longrightarrow> callExpression requiredModules callee arguments st = st"
  by (auto simp: callExpression_def isRequireCall_def getRequiredModuleNameFromCall_def
      isString_def pushFound_def neq_Nil_conv split: expr.splits literal_value.splits)

lemma getRequiredModuleName_eq:
  "getRequiredModuleName requiredModules str =
     (if str = ''../common/index.mjs'' then Some ''common''
      else if basename str \<in> set requiredModules then Some (basename str) else None)"
  by (simp add: getRequiredModuleName_def Let_def indexOf_absent)

lemma getRequiredModuleName_range:
  "getRequiredModuleName requiredModules str = Some name \<Longrightarrow>
     name = ''common'' \<or> name \<in> set requiredModules"
  by (auto simp: getRequiredModuleName_eq split: if_splits)

lemma resolved_passes_resolver:
  "resolved ctx n = Some name \<Longrightarrow>
     \<exists>str. getRequiredModuleName (options ctx) str = Some name"
  by (cases n)
     (auto simp: resolved_def getRequiredModuleNameFromCall_def split: if_splits)

lemma added_cases:
  "added ctx n = [] \<or>
   (\<exists>str name. added ctx n = [name] \<and> getRequiredModuleName (options ctx) str = Some name)"
proof (cases "resolved ctx n")
  case None
  then show ?thesis by (simp add: added_def)
next
  case (Some name)
  then obtain str where "getRequiredModuleName (options ctx) str = Some name"
    using resolved_passes_resolver by blast
  with Some show ?thesis by (auto simp: added_def)
qed

lemma added_range: "set (added ctx n) \<subseteq> insert ''common'' (set (options ctx))"
  using added_cases [of ctx n] getRequiredModuleName_range by fastforce

lemma found_range: "set (found ctx ns) \<subseteq> insert ''common'' (set (options ctx))"
  using added_range by (fastforce simp: found_concat)

lemma finish_found: "foundModules (finish (create ctx) st) = foundModules st"
  by (simp add: finish_def create_def Let_def noListeners_def programExit_def)

lemma one_visit_listener:
  "options ctx \<noteq> [] \<Longrightarrow>
     (onImportDeclaration (create ctx) = None) \<noteq> (onCallExpression (create ctx) = None)"
  by (simp add: create_def Let_def)

lemma found_require_call:
  "options ctx \<noteq> [] \<Longrightarrow> \<not> isESM ctx \<Longrightarrow>
     found ctx [callOf ''require'' s] =
       (case getRequiredModuleName (options ctx) (trim s) of
          None \<Rightarrow> []
        | Some name \<Rightarrow> if name \<noteq> [] then [name] else [])"
  by (simp add: found_concat added_def resolved_def callOf_def isRequireCall_def
      getRequiredModuleNameFromCall_def isString_def)

lemma found_import:
  "options ctx \<noteq> [] \<Longrightarrow> isESM ctx \<Longrightarrow>
     found ctx [ImportDeclaration s] =
       (case getRequiredModuleName (options ctx) s of
          None \<Rightarrow> []
        | Some name \<Rightarrow> if name \<noteq> [] then [name] else [])"
  by (simp add: found_concat added_def resolved_def)

lemma reports_follow_configured_order:
  "length (found ctx ns) < length (options ctx) \<Longrightarrow>
     lint ctx ns = map missing (filter (\<lambda>m. m \<notin> set (found ctx ns)) (options ctx))"
  by (simp add: lint_eq)

lemma set_importSources: "set (importSources ns) = {s. ImportDeclaration s \<in> set ns}"
  by (induction ns rule: importSources.induct) auto

lemma added_import:
  assumes "isESM ctx" "options ctx \<noteq> []" "[] \<notin> set (options ctx)"
    and "basename s \<in> set (options ctx)"
  shows "length (added ctx (ImportDeclaration s)) = 1"
  using assms by (auto simp: added_def resolved_def getRequiredModuleName_eq)

lemma added_not_import:
  "isESM ctx \<Longrightarrow> \<forall>s. n \<noteq> ImportDeclaration s \<Longrightarrow> added ctx n = []"
  by (cases n) (simp_all add: added_def resolved_def)

lemma length_found_imports:
  assumes "isESM ctx" "options ctx \<noteq> []" "[] \<notin> set (options ctx)"
  shows "basename ` set (importSources ns) \<subseteq> set (options ctx) \<Longrightarrow>
         length (found ctx ns) = length (importSources ns)"
proof (induction ns)
  case Nil
  show ?case by (simp add: found_concat)
next
  case (Cons n ns)
  show ?case
  proof (cases n)
    case (ImportDeclaration s)
    with Cons.prems have "basename s \<in> set (options ctx)" by simp
    with assms have "length (added ctx (ImportDeclaration s)) = 1"
      by (simp add: added_import)
    with Cons ImportDeclaration show ?thesis
      using found_append [of ctx "[n]" ns] by (simp add: found_concat)
  next
    case Program
    with Cons assms(1) show ?thesis by (simp add: found_concat added_not_import)
  next
    case (CallExpression callee arguments)
    with Cons assms(1) show ?thesis by (simp add: found_concat added_not_import)
  next
    case OtherNode
    with Cons assms(1) show ?thesis by (simp add: found_concat added_not_import)
  qed
qed

lemma covering_imports_silent:
  assumes esm: "isESM ctx" and dist: "distinct (options ctx)"
    and ne: "[] \<notin> set (options ctx)"
    and cover: "basename ` set (importSources ns) = set (options ctx)"
  shows "lint ctx ns = []"
proof (cases "options ctx = []")
  case True
  then show ?thesis by (simp add: lint_eq)
next
  case False
  have "length (options ctx) = card (set (options ctx))"
    using dist by (simp add: distinct_card)
  also have "\<dots> = card (basename ` set (importSources ns))"
    by (simp add: cover)
  also have "\<dots> \<le> card (set (importSources ns))"
    by (simp add: card_image_le)
  also have "\<dots> \<le> length (importSources ns)"
    by (rule card_length)
  also have "\<dots> = length (found ctx ns)"
    using length_found_imports [OF esm False ne] cover by simp
  finally show ?thesis by (simp add: lint_eq)
qed

subsection \<open>The empty configuration\<close>

text \<open>
  Claim C9. When the list of required modules is empty, the rule returns an object
  without any listener: there is none for \<^verbatim>\<open>'Program:exit'\<close>, none for
  \<^verbatim>\<open>ImportDeclaration\<close> and none for \<^verbatim>\<open>CallExpression\<close>. The analysis of any file
  then makes no report.
\<close>

theorem empty_configuration_is_silent:
  "options ctx = [] \<Longrightarrow>
     onProgramExit (create ctx) = None \<and>
     onImportDeclaration (create ctx) = None \<and>
     onCallExpression (create ctx) = None \<and>
     lint ctx ns = []"
  by (simp add: create_empty noListeners_def lint_eq)

theorem empty_configuration_is_silent_witness:
  "options (callMode []) = [] \<and>
   onProgramExit (create (callMode [])) = None \<and>
   onImportDeclaration (create (callMode [])) = None \<and>
   onCallExpression (create (callMode [])) = None \<and>
   lint (callMode []) [callOf ''require'' ''fs'', ImportDeclaration ''os''] = []"
  using empty_configuration_is_silent
    [of "callMode []" "[callOf ''require'' ''fs'', ImportDeclaration ''os'']"]
  by (simp add: callMode_def)

subsection \<open>The alias of the common module\<close>

text \<open>
  Claim C6. The path \<^verbatim>\<open>'../common/index.mjs'\<close> resolves to the name \<^verbatim>\<open>'common'\<close>
  for every list of required modules, whether the list holds \<^verbatim>\<open>'common'\<close> or not, and
  the name is then appended to \<^verbatim>\<open>foundModules\<close>: by the listener for import
  declarations at this source, by the listener for call expressions at a call of
  \<^verbatim>\<open>require\<close> with this first argument, and so by the visit of such a node under
  every configuration that is not empty.
\<close>

theorem alias_path_is_common:
  "getRequiredModuleName requiredModules ''../common/index.mjs'' = Some ''common'' \<and>
   foundModules (importDeclaration requiredModules ''../common/index.mjs'' st) =
     foundModules st @ [''common''] \<and>
   foundModules (callExpression requiredModules (Identifier ''require'')
       (Literal (StringValue ''../common/index.mjs'') # rest) st) =
     foundModules st @ [''common''] \<and>
   (options ctx \<noteq> [] \<longrightarrow>
      found ctx (ns @ [if isESM ctx then ImportDeclaration ''../common/index.mjs''
                       else callOf ''require'' ''../common/index.mjs'']) =
        found ctx ns @ [''common''])"
proof (intro conjI impI)
  show "getRequiredModuleName requiredModules ''../common/index.mjs'' = Some ''common''"
    by (simp add: getRequiredModuleName_def)
  then show "foundModules (importDeclaration requiredModules ''../common/index.mjs'' st) =
      foundModules st @ [''common'']"
    by (simp add: importDeclaration_def pushFound_def)
  have t: "trim ''../common/index.mjs'' = ''../common/index.mjs''"
    by code_simp
  show "foundModules (callExpression requiredModules (Identifier ''require'')
       (Literal (StringValue ''../common/index.mjs'') # rest) st) =
     foundModules st @ [''common'']"
    by (simp add: callExpression_def isRequireCall_def getRequiredModuleNameFromCall_def
        isString_def t getRequiredModuleName_def pushFound_def)
  assume "options ctx \<noteq> []"
  then show "found ctx (ns @ [if isESM ctx then ImportDeclaration ''../common/index.mjs''
                       else callOf ''require'' ''../common/index.mjs'']) =
        found ctx ns @ [''common'']"
    by (simp add: found_append found_import found_require_call t getRequiredModuleName_def)
qed

theorem alias_path_is_common_witness:
  "getRequiredModuleName [''fs''] ''../common/index.mjs'' = Some ''common'' \<and>
   found (importMode [''fs'']) [ImportDeclaration ''fs'', ImportDeclaration ''../common/index.mjs'']
     = found (importMode [''fs'']) [ImportDeclaration ''fs''] @ [''common''] \<and>
   found (callMode [''fs'']) [callOf ''require'' ''fs'', callOf ''require'' ''../common/index.mjs'']
     = found (callMode [''fs'']) [callOf ''require'' ''fs''] @ [''common'']"
  using alias_path_is_common [of "[''fs'']" initial "[]" "importMode [''fs'']"
      "[ImportDeclaration ''fs'']"]
    alias_path_is_common [of "[''fs'']" initial "[]" "callMode [''fs'']"
      "[callOf ''require'' ''fs'']"]
  by (simp add: importMode_def callMode_def isESM_def)

text \<open>
  Claim C2, as the spec states it: in call mode both \<^verbatim>\<open>require("../common/index.mjs")\<close>
  and \<^verbatim>\<open>require("../../common/index.mjs")\<close> are recorded as \<^verbatim>\<open>'common'\<close>, and neither is
  recorded as \<^verbatim>\<open>'index.mjs'\<close>. This fails: with \<^verbatim>\<open>'common'\<close> required, the visit of the
  second call records nothing.
\<close>

theorem deeper_common_path_counterexample:
  "\<not> (''common'' \<in> set (found (callMode [''common''])
            [callOf ''require'' ''../common/index.mjs'']) \<and>
       ''common'' \<in> set (found (callMode [''common''])
            [callOf ''require'' ''../../common/index.mjs'']) \<and>
       ''index.mjs'' \<notin> set (found (callMode [''index.mjs''])
            [callOf ''require'' ''../common/index.mjs'']) \<and>
       ''index.mjs'' \<notin> set (found (callMode [''index.mjs''])
            [callOf ''require'' ''../../common/index.mjs'']))"
proof -
  have "found (callMode [''common'']) [callOf ''require'' ''../../common/index.mjs''] = []"
    by code_simp
  then show ?thesis by simp
qed

text \<open>
  Claim C2, amended. In call mode, under every configuration that is not empty,
  \<^verbatim>\<open>require("../common/index.mjs")\<close> is recorded as \<^verbatim>\<open>'common'\<close> and as nothing else, so
  it satisfies a requirement on \<^verbatim>\<open>'common'\<close> and none on \<^verbatim>\<open>'index.mjs'\<close>. The other
  path, \<^verbatim>\<open>require("../../common/index.mjs")\<close>, is no alias: it is resolved by its
  basename \<^verbatim>\<open>'index.mjs'\<close>, so it is never recorded as \<^verbatim>\<open>'common'\<close>, and it is recorded
  as \<^verbatim>\<open>'index.mjs'\<close> exactly when that name is required.
\<close>

theorem alias_is_one_exact_path:
  "options ctx \<noteq> [] \<Longrightarrow> \<not> isESM ctx \<Longrightarrow>
     found ctx [callOf ''require'' ''../common/index.mjs''] = [''common''] \<and>
     found ctx [callOf ''require'' ''../../common/index.mjs''] =
       (if ''index.mjs'' \<in> set (options ctx) then [''index.mjs''] else [])"
proof -
  assume a: "options ctx \<noteq> []" "\<not> isESM ctx"
  have t1: "trim ''../common/index.mjs'' = ''../common/index.mjs''" by code_simp
  have t2: "trim ''../../common/index.mjs'' = ''../../common/index.mjs''" by code_simp
  have b: "basename ''../../common/index.mjs'' = ''index.mjs''" by code_simp
  show ?thesis
    by (simp add: found_require_call [OF a] t1 t2 b getRequiredModuleName_eq)
qed

theorem alias_is_one_exact_path_witness:
  "found (callMode [''common'', ''index.mjs'']) [callOf ''require'' ''../common/index.mjs'']
     = [''common''] \<and>
   found (callMode [''common'', ''index.mjs'']) [callOf ''require'' ''../../common/index.mjs'']
     = [''index.mjs''] \<and>
   found (callMode [''common'']) [callOf ''require'' ''../../common/index.mjs''] = []"
  using alias_is_one_exact_path [of "callMode [''common'', ''index.mjs'']"]
    alias_is_one_exact_path [of "callMode [''common'']"]
  by (simp add: callMode_def isESM_def)

subsection \<open>Which calls are references\<close>

text \<open>
  Claim C7. The listener for call expressions changes the state only at a call whose
  callee is the identifier \<^verbatim>\<open>require\<close> and whose first argument exists and is a
  literal with a string value. At a call of any other shape (another callee name, a
  member expression as callee, no argument, a first argument that is not a string
  literal) it returns the state as it was, and so does the visit of that call under
  the listeners of any context. For the required list \<^verbatim>\<open>['fs']\<close>, the file with the
  single call \<^verbatim>\<open>doRequire("./fs.js")\<close> finds nothing and gets one report, for
  \<^verbatim>\<open>'fs'\<close>.
\<close>

theorem only_literal_require_calls_are_references:
  "(\<not> (callee = Identifier ''require'' \<and>
        (\<exists>v rest. arguments = Literal (StringValue v) # rest)) \<longrightarrow>
      callExpression requiredModules callee arguments st = st \<and>
      visit (create ctx) (CallExpression callee arguments) st = st) \<and>
   found (callMode [''fs'']) [callOf ''doRequire'' ''./fs.js''] = [] \<and>
   lint (callMode [''fs'']) [callOf ''doRequire'' ''./fs.js''] = [missing ''fs'']"
proof (intro conjI impI)
  assume shape: "\<not> (callee = Identifier ''require'' \<and>
        (\<exists>v rest. arguments = Literal (StringValue v) # rest))"
  then show "callExpression requiredModules callee arguments st = st"
    by (rule callExpression_other_shape)
  from shape have "callExpression (options ctx) callee arguments st = st"
    by (rule callExpression_other_shape)
  then show "visit (create ctx) (CallExpression callee arguments) st = st"
    by (simp add: create_def Let_def noListeners_def)
next
  show "found (callMode [''fs'']) [callOf ''doRequire'' ''./fs.js''] = []"
    by code_simp
  show "lint (callMode [''fs'']) [callOf ''doRequire'' ''./fs.js''] = [missing ''fs'']"
    by code_simp
qed

theorem only_literal_require_calls_are_references_witness:
  "callExpression [''fs''] (MemberExpression (Identifier ''module'') (Identifier ''require'') False)
       [Literal (StringValue ''fs'')] initial = initial \<and>
   visit (create (callMode [''fs'']))
       (CallExpression (MemberExpression (Identifier ''module'') (Identifier ''require'') False)
          [Literal (StringValue ''fs'')]) initial = initial"
  using only_literal_require_calls_are_references
    [of "MemberExpression (Identifier ''module'') (Identifier ''require'') False"
        "[Literal (StringValue ''fs'')]" "[''fs'']" initial "callMode [''fs'']"]
  by simp

subsection \<open>Trimming, and the extension of a path\<close>

text \<open>
  Claim C4 says that the path is trimmed in both modes before it is resolved. The
  listener for call expressions trims its argument; the listener for import
  declarations passes the source on as it is. With \<^verbatim>\<open>['fs']\<close> required, the call
  \<^verbatim>\<open>require(' fs')\<close> is recorded as \<^verbatim>\<open>'fs'\<close> and the file passes, while the import
  declaration with the source \<^verbatim>\<open>' fs'\<close> records nothing and \<^verbatim>\<open>'fs'\<close> is reported,
  although the trimmed source resolves to \<^verbatim>\<open>'fs'\<close>.
\<close>

theorem import_source_is_not_trimmed:
  "trim '' fs'' = ''fs'' \<and>
   getRequiredModuleName [''fs''] (trim '' fs'') = Some ''fs'' \<and>
   found (callMode [''fs'']) [callOf ''require'' '' fs''] = [''fs''] \<and>
   lint (callMode [''fs'']) [callOf ''require'' '' fs''] = [] \<and>
   found (importMode [''fs'']) [ImportDeclaration '' fs''] = [] \<and>
   lint (importMode [''fs'']) [ImportDeclaration '' fs''] = [missing ''fs'']"
  by (intro conjI; code_simp)

text \<open>
  Claim C3, as the spec states it: with \<^verbatim>\<open>['common', 'fs']\<close> required, the call-mode file
  with the calls \<^verbatim>\<open>require("../common/index.mjs")\<close> and \<^verbatim>\<open>require("./fs.js")\<close> gets no
  report. This fails: the file gets a report.
\<close>

theorem fs_js_call_counterexample:
  "lint (callMode [''common'', ''fs''])
     [callOf ''require'' ''../common/index.mjs'', callOf ''require'' ''./fs.js''] \<noteq> []"
  by code_simp

text \<open>
  Claim C3, amended. With \<^verbatim>\<open>['common', 'fs']\<close> required, the call-mode file with the
  calls \<^verbatim>\<open>require("../common/index.mjs")\<close> and \<^verbatim>\<open>require("./fs.js")\<close> records only
  \<^verbatim>\<open>'common'\<close> and gets exactly one report, for \<^verbatim>\<open>'fs'\<close>: the basename of \<^verbatim>\<open>"./fs.js"\<close>
  is \<^verbatim>\<open>'fs.js'\<close>, with its extension. The same file with \<^verbatim>\<open>require("./fs")\<close> in place
  of the second call gets no report.
\<close>

theorem extension_stays_in_basename:
  "found (callMode [''common'', ''fs''])
     [callOf ''require'' ''../common/index.mjs'', callOf ''require'' ''./fs.js''] = [''common''] \<and>
   lint (callMode [''common'', ''fs''])
     [callOf ''require'' ''../common/index.mjs'', callOf ''require'' ''./fs.js'']
     = [missing ''fs''] \<and>
   lint (callMode [''common'', ''fs''])
     [callOf ''require'' ''../common/index.mjs'', callOf ''require'' ''./fs''] = []"
  by (intro conjI; code_simp)

subsection \<open>The names found during the traversal\<close>

text \<open>
  Claim C10. After the visit of any prefix \<^verbatim>\<open>pre\<close> of the nodes of a file, every
  element of \<^verbatim>\<open>foundModules\<close> is \<^verbatim>\<open>'common'\<close> or one of the required modules. The list
  only grows at its end: what is found after \<^verbatim>\<open>pre\<close> is a prefix of what is found after
  any longer sequence of nodes. The visit of one more node leaves the list as it is or
  appends one name that \<^verbatim>\<open>getRequiredModuleName\<close> returned; \<^verbatim>\<open>'Program:exit'\<close> does not
  change the list. A configuration that is not empty has exactly one of the two
  listeners for nodes: the one for import declarations or the one for call expressions.
\<close>

theorem foundModules_invariant:
  "set (found ctx pre) \<subseteq> insert ''common'' (set (options ctx)) \<and>
   prefix (found ctx pre) (found ctx (pre @ post)) \<and>
   (found ctx (pre @ [n]) = found ctx pre \<or>
    (\<exists>str name. getRequiredModuleName (options ctx) str = Some name \<and>
       found ctx (pre @ [n]) = found ctx pre @ [name])) \<and>
   foundModules (finish (create ctx) (traverse (create ctx) pre initial)) = found ctx pre \<and>
   (options ctx \<noteq> [] \<longrightarrow>
      (onImportDeclaration (create ctx) = None) \<noteq> (onCallExpression (create ctx) = None))"
proof (intro conjI)
  show "set (found ctx pre) \<subseteq> insert ''common'' (set (options ctx))"
    by (rule found_range)
  show "prefix (found ctx pre) (found ctx (pre @ post))"
    by (simp add: found_append)
  show "found ctx (pre @ [n]) = found ctx pre \<or>
    (\<exists>str name. getRequiredModuleName (options ctx) str = Some name \<and>
       found ctx (pre @ [n]) = found ctx pre @ [name])"
    using added_cases [of ctx n] by (auto simp: found_append found_concat)
  show "foundModules (finish (create ctx) (traverse (create ctx) pre initial)) = found ctx pre"
    by (simp add: finish_found found_def)
  show "options ctx \<noteq> [] \<longrightarrow>
      (onImportDeclaration (create ctx) = None) \<noteq> (onCallExpression (create ctx) = None)"
    by (simp add: one_visit_listener)
qed

theorem foundModules_invariant_witness:
  "set (found (callMode [''fs'']) [callOf ''require'' ''../common/index.mjs''])
     \<subseteq> insert ''common'' (set [''fs'']) \<and>
   prefix (found (callMode [''fs'']) [callOf ''require'' ''../common/index.mjs''])
     (found (callMode [''fs''])
        [callOf ''require'' ''../common/index.mjs'', callOf ''require'' ''fs'']) \<and>
   (onImportDeclaration (create (callMode [''fs''])) = None) \<noteq>
     (onCallExpression (create (callMode [''fs''])) = None)"
  using foundModules_invariant
    [of "callMode [''fs'']" "[callOf ''require'' ''../common/index.mjs'']"
        "[callOf ''require'' ''fs'']" "callOf ''require'' ''fs''"]
  by (simp add: callMode_def)

subsection \<open>The reports at the end of the traversal\<close>

text \<open>
  Claim C5. When \<^verbatim>\<open>foundModules\<close> has at least as many elements as \<^verbatim>\<open>requiredModules\<close>
  at the end of the traversal, \<^verbatim>\<open>'Program:exit'\<close> leaves the state as it is and the
  file gets no report, whatever the elements are. Repeated references reach this
  length with a module still missing: with \<^verbatim>\<open>['common', 'fs']\<close> required, two calls
  \<^verbatim>\<open>require('common')\<close> find \<^verbatim>\<open>['common', 'common']\<close> and nothing is reported. So does
  the alias: with \<^verbatim>\<open>['fs']\<close> required, \<^verbatim>\<open>require('../common/index.mjs')\<close> finds
  \<^verbatim>\<open>['common']\<close> and nothing is reported.
\<close>

theorem length_guard_hides_missing_modules:
  "(length (options ctx) \<le> length (found ctx ns) \<longrightarrow> lint ctx ns = []) \<and>
   (length requiredModules \<le> length (foundModules st) \<longrightarrow>
      programExit requiredModules n st = st) \<and>
   found (callMode [''common'', ''fs''])
     [callOf ''require'' ''common'', callOf ''require'' ''common''] = [''common'', ''common''] \<and>
   lint (callMode [''common'', ''fs''])
     [callOf ''require'' ''common'', callOf ''require'' ''common''] = [] \<and>
   found (callMode [''fs'']) [callOf ''require'' ''../common/index.mjs''] = [''common''] \<and>
   lint (callMode [''fs'']) [callOf ''require'' ''../common/index.mjs''] = []"
proof (intro conjI)
  show "length (options ctx) \<le> length (found ctx ns) \<longrightarrow> lint ctx ns = []"
    by (simp add: lint_eq)
  show "length requiredModules \<le> length (foundModules st) \<longrightarrow>
      programExit requiredModules n st = st"
    by (simp add: programExit_def)
  show "found (callMode [''common'', ''fs''])
     [callOf ''require'' ''common'', callOf ''require'' ''common''] = [''common'', ''common'']"
    by code_simp
  show "lint (callMode [''common'', ''fs''])
     [callOf ''require'' ''common'', callOf ''require'' ''common''] = []"
    by code_simp
  show "found (callMode [''fs'']) [callOf ''require'' ''../common/index.mjs''] = [''common'']"
    by code_simp
  show "lint (callMode [''fs'']) [callOf ''require'' ''../common/index.mjs''] = []"
    by code_simp
qed

theorem length_guard_hides_missing_modules_witness:
  "length (options (callMode [''fs'', ''os''])) \<le>
     length (found (callMode [''fs'', ''os''])
       [callOf ''require'' ''./fs'', callOf ''require'' ''../fs'']) \<and>
   ''os'' \<notin> set (found (callMode [''fs'', ''os''])
       [callOf ''require'' ''./fs'', callOf ''require'' ''../fs'']) \<and>
   lint (callMode [''fs'', ''os''])
       [callOf ''require'' ''./fs'', callOf ''require'' ''../fs''] = []"
proof -
  have f: "found (callMode [''fs'', ''os''])
       [callOf ''require'' ''./fs'', callOf ''require'' ''../fs''] = [''fs'', ''fs'']"
    by code_simp
  have o: "options (callMode [''fs'', ''os'']) = [''fs'', ''os'']"
    by (simp add: callMode_def)
  from f o length_guard_hides_missing_modules
    [of "callMode [''fs'', ''os'']" "[callOf ''require'' ''./fs'', callOf ''require'' ''../fs'']"]
  show ?thesis by simp
qed

text \<open>
  Claim C1 says that a required module which no visited reference resolves to gets
  exactly one report. With \<^verbatim>\<open>['fs', 'os']\<close> required, no import of the file with two
  import declarations from \<^verbatim>\<open>'fs'\<close> resolves to \<^verbatim>\<open>'os'\<close>, yet the file gets no report,
  because \<^verbatim>\<open>foundModules\<close> is as long as \<^verbatim>\<open>requiredModules\<close>. With one of the two
  declarations alone, \<^verbatim>\<open>'os'\<close> is reported.
\<close>

theorem repeated_import_hides_missing_module:
  "getRequiredModuleName [''fs'', ''os''] ''fs'' = Some ''fs'' \<and>
   found (importMode [''fs'', ''os'']) [ImportDeclaration ''fs'', ImportDeclaration ''fs'']
     = [''fs'', ''fs''] \<and>
   lint (importMode [''fs'', ''os'']) [ImportDeclaration ''fs'', ImportDeclaration ''fs''] = [] \<and>
   lint (importMode [''fs'', ''os'']) [ImportDeclaration ''fs''] = [missing ''os'']"
  by (intro conjI; code_simp)

text \<open>
  Claim C8, as the spec states it: a file in import mode whose import declarations
  cover exactly the required modules by basename gets no report. This fails for the
  required list with the empty name alone and the import declaration with the empty
  source: the name resolved is the empty string, which the listener does not push.
\<close>

theorem empty_name_counterexample:
  "isESM (importMode [[]]) \<and> distinct (options (importMode [[]])) \<and>
   basename ` set (importSources [ImportDeclaration []]) = set (options (importMode [[]])) \<and>
   lint (importMode [[]]) [ImportDeclaration []] = [missing []]"
proof (intro conjI)
  show "isESM (importMode [[]])" by (simp add: isESM_def importMode_def)
  show "distinct (options (importMode [[]]))" by (simp add: importMode_def)
  show "basename ` set (importSources [ImportDeclaration []]) = set (options (importMode [[]]))"
    by (simp add: basename_def importMode_def)
  show "lint (importMode [[]]) [ImportDeclaration []] = [missing []]" by code_simp
qed

text \<open>
  Claim C8, amended. Let the required modules be pairwise distinct, as the schema of
  the rule demands, and let none of them be the empty string. Then a file in import
  mode, the basenames of whose import sources are exactly the required modules, gets
  no report, and neither does any file that visits the same nodes in another order.
\<close>

theorem covering_imports_any_order:
  assumes "isESM ctx" and "distinct (options ctx)" and "[] \<notin> set (options ctx)"
    and "basename ` set (importSources ns) = set (options ctx)"
  shows "lint ctx ns = [] \<and> (\<forall>ns'. mset ns' = mset ns \<longrightarrow> lint ctx ns' = [])"
proof (intro conjI allI impI)
  show "lint ctx ns = []"
    using assms by (rule covering_imports_silent)
next
  fix ns' :: "node list"
  assume "mset ns' = mset ns"
  then have "set ns' = set ns" by (rule mset_eq_setD)
  then have "set (importSources ns') = set (importSources ns)"
    by (simp add: set_importSources)
  with assms(4) have "basename ` set (importSources ns') = set (options ctx)" by simp
  with assms(1-3) show "lint ctx ns' = []"
    by (rule covering_imports_silent)
qed

theorem covering_imports_any_order_witness:
  "lint (importMode [''fs'', ''common''])
     [ImportDeclaration ''node/fs'', OtherNode, ImportDeclaration ''../common''] = [] \<and>
   lint (importMode [''fs'', ''common''])
     [ImportDeclaration ''../common'', ImportDeclaration ''node/fs'', OtherNode] = []"
proof -
  let ?ctx = "importMode [''fs'', ''common'']"
  let ?ns = "[ImportDeclaration ''node/fs'', OtherNode, ImportDeclaration ''../common'']"
  have 1: "isESM ?ctx" by (simp add: isESM_def importMode_def)
  have 2: "distinct (options ?ctx)" by (simp add: importMode_def)
  have 3: "[] \<notin> set (options ?ctx)" by (simp add: importMode_def)
  have 4: "basename ` set (importSources ?ns) = set (options ?ctx)"
    by (simp add: basename_def importMode_def)
  have 5: "mset [ImportDeclaration ''../common'', ImportDeclaration ''node/fs'', OtherNode]
      = mset ?ns" by simp
  from covering_imports_any_order [OF 1 2 3 4] 5 show ?thesis by blast
qed

end
